theory Spec2Isabelle
  imports Complex_Main
begin

section \<open>The voice chat session of src/components/VoiceChat.tsx\<close>

text \<open>
  The component keeps three pieces of React state (\<open>status\<close>, \<open>transcript\<close>,
  \<open>error\<close>) and nine mutable refs. Its code runs as event handlers on one thread: a
  handler runs to its end (or to an \<open>await\<close>) before the next one starts. The model is
  a record of the component's state together with the part of the browser the handlers
  read (the state of an audio context, the state of the session promise) and a trace of
  the calls they make on external objects. Every handler is a function from state to
  state. A React state setter takes effect where it is called: the handlers never read
  the three pieces of state back except through the updater of \<open>onclose\<close>, which
  receives the latest value, and the component is rendered between handlers only.

  JavaScript numbers (the playback clock, buffer durations) are the type variable \<open>'t\<close>:
  the handlers only compare them (\<open>Math.max\<close>), add them and write the constant 0, so the
  model asks for a linear order, an addition and a zero, and nothing of real arithmetic.
  The encoded microphone frame is the type variable \<open>'b\<close>.

  Strings are lists of 8-bit characters, read as the code points U+0000 to U+00FF.
\<close>

subsection \<open>Strings\<close>

text \<open>
  \<open>String.prototype.trim\<close> removes white space and line terminators from both ends.
  Of the code points below U+0100 these are TAB, LF, VT, FF, CR, SPACE and NBSP.
\<close>

definition is_whitespace :: "char \<Rightarrow> bool" where
  "is_whitespace c \<longleftrightarrow>
     c \<in> {CHR 0x09, CHR 0x0A, CHR 0x0B, CHR 0x0C, CHR 0x0D, CHR 0x20, CHR 0xA0}"

definition trim :: "string \<Rightarrow> string" where
  "trim s = rev (dropWhile is_whitespace (rev (dropWhile is_whitespace s)))"

text \<open>A string is truthy when it is not empty.\<close>

definition truthy :: "string \<Rightarrow> bool" where
  "truthy s \<longleftrightarrow> s \<noteq> []"

text \<open>
  \<open>acc += x\<close> on a string accumulator: an absent (\<open>undefined\<close>) right-hand side is
  converted to the text \<open>undefined\<close>.
\<close>

definition js_append :: "string \<Rightarrow> string option \<Rightarrow> string" where
  "js_append acc x = acc @ (case x of None \<Rightarrow> ''undefined'' | Some t \<Rightarrow> t)"

subsection \<open>Data\<close>

datatype ChatStatus = Idle | Connecting | Active | Stopped | Error

datatype Speaker = User | Model

record TranscriptEntry =
  speaker :: Speaker
  entry_text :: string

text \<open>
  The inbound message (\<open>LiveServerMessage\<close>): every field is optional, an absent field
  is \<open>None\<close>.
\<close>

record Transcription =
  transcription_text :: "string option"

record Blob =
  data :: "string option"

record Part =
  inlineData :: "Blob option"
  part_text :: "string option"

record Content =
  parts :: "Part list option"

record LiveServerContent =
  inputTranscription :: "Transcription option"
  outputTranscription :: "Transcription option"
  turnComplete :: "bool option"
  modelTurn :: "Content option"

record LiveServerMessage =
  serverContent :: "LiveServerContent option"

text \<open>External objects are known by an identity; a media stream by its tracks.\<close>

record MediaStream =
  getTracks :: "nat list"

datatype AudioContextState = Suspended | Running | Closed

datatype js_error =
  TypeError | NotAllowedError | NotFoundError | NotSupportedError | InvalidStateError
  | EncodingError | NetworkError

datatype promise_state = Pending | Fulfilled | Rejected js_error

text \<open>The calls the handlers make on external objects, in the order they are made.\<close>

datatype ('t, 'b) effect =
    TrackStop nat
  | NodeDisconnect nat
  | NodeConnect nat nat
  | ConnectDestination nat nat
  | GainSetZero nat
  | ContextClose nat
  | ContextResume nat
  | SessionClose nat
  | SourceStart nat 't
  | SourceStop nat
  | SendRealtimeInput nat 'b

text \<open>A reaction registered with \<open>.then\<close> on the session promise.\<close>

datatype 'b reaction = ThenSend 'b | ThenClose

datatype console_entry =
  SessionErrorLog | StartFailedLog js_error | RejectionLog js_error

record ('t, 'b) component =
  status :: ChatStatus
  transcript :: "TranscriptEntry list"
  error :: "string option"
  sessionPromiseRef :: "nat option"
  inputAudioContextRef :: "nat option"
  outputAudioContextRef :: "nat option"
  scriptProcessorRef :: "nat option"
  mediaStreamRef :: "MediaStream option"
  sourcesRef :: "nat list"
  nextStartTimeRef :: 't
  currentInputTranscriptionRef :: string
  currentOutputTranscriptionRef :: string
  contextState :: "nat \<Rightarrow> AudioContextState"
  promiseState :: "nat \<Rightarrow> promise_state"
  jobs :: "(nat \<times> 'b reaction) list"
  effects :: "('t, 'b) effect list"
  console :: "console_entry list"

text \<open>
  \<open>sourcesRef\<close> is a JavaScript \<open>Set\<close>: it iterates in insertion order, adding a
  member again changes nothing.
\<close>

definition set_add :: "nat \<Rightarrow> nat list \<Rightarrow> nat list" where
  "set_add x xs = (if x \<in> set xs then xs else xs @ [x])"

definition set_delete :: "nat \<Rightarrow> nat list \<Rightarrow> nat list" where
  "set_delete x xs = removeAll x xs"

definition call :: "('t, 'b) effect list \<Rightarrow> ('t, 'b) component \<Rightarrow> ('t, 'b) component" where
  "call es s = s\<lparr>effects := effects s @ es\<rparr>"

subsection \<open>Promise reactions\<close>

text \<open>
  \<open>p.then(f)\<close> registers \<open>f\<close>; it runs after the running handler has finished, once \<open>p\<close>
  is fulfilled, and reactions of one promise run in the order they were registered.
  \<open>drain\<close> is the microtask checkpoint at the end of a handler: it runs the reactions
  whose promise is settled and keeps the others.

  A send registered on a promise that is rejected never runs (the source has no
  \<open>catch\<close> there); the close registered by \<open>cleanup\<close> ends in \<open>.catch(console.error)\<close>.
\<close>

fun run_job :: "nat \<times> 'b reaction \<Rightarrow> ('t, 'b) component \<Rightarrow> ('t, 'b) component" where
  "run_job (p, ThenSend b) s =
     (case promiseState s p of
        Fulfilled \<Rightarrow> call [SendRealtimeInput p b] s
      | _ \<Rightarrow> s)"
| "run_job (p, ThenClose) s =
     (case promiseState s p of
        Fulfilled \<Rightarrow> call [SessionClose p] s
      | Rejected e \<Rightarrow> s\<lparr>console := console s @ [RejectionLog e]\<rparr>
      | Pending \<Rightarrow> s)"

definition is_pending :: "(nat \<Rightarrow> promise_state) \<Rightarrow> nat \<times> 'b reaction \<Rightarrow> bool" where
  "is_pending ps j \<longleftrightarrow> ps (fst j) = Pending"

definition drain :: "('t, 'b) component \<Rightarrow> ('t, 'b) component" where
  "drain s =
     fold run_job (filter (\<lambda>j. \<not> is_pending (promiseState s) j) (jobs s))
       (s\<lparr>jobs := filter (is_pending (promiseState s)) (jobs s)\<rparr>)"

text \<open>The environment settles the session promise; the waiting reactions run.\<close>

definition settle :: "nat \<Rightarrow> promise_state \<Rightarrow> ('t, 'b) component \<Rightarrow> ('t, 'b) component" where
  "settle p st s = drain (s\<lparr>promiseState := (promiseState s)(p := st)\<rparr>)"

text \<open>
  \<open>.catch(console.error)\<close> on the promise of \<open>AudioContext.close()\<close> or on a throwing
  \<open>session.close()\<close>: the rejection arrives after \<open>cleanup\<close> has returned and is logged.
\<close>

definition on_rejection :: "js_error \<Rightarrow> ('t, 'b) component \<Rightarrow> ('t, 'b) component" where
  "on_rejection e s = s\<lparr>console := console s @ [RejectionLog e]\<rparr>"

subsection \<open>cleanup (lines 34 to 56)\<close>

text \<open>
  Every dereference of a ref is guarded (\<open>?.\<close> or \<open>&&\<close>): a null ref skips its step.
  \<open>track.stop()\<close>, \<open>disconnect()\<close> and \<open>stop()\<close> on a started source return normally; the
  two \<open>close()\<close> calls and the session close return promises, whose failure is handled
  by \<open>on_rejection\<close>.
\<close>

definition stopTracks :: "('t, 'b) component \<Rightarrow> ('t, 'b) component" where
  "stopTracks s =
     (case mediaStreamRef s of
        None \<Rightarrow> s
      | Some ms \<Rightarrow> call (map TrackStop (getTracks ms)) s)"

definition disconnectProcessor :: "('t, 'b) component \<Rightarrow> ('t, 'b) component" where
  "disconnectProcessor s =
     (case scriptProcessorRef s of
        None \<Rightarrow> s
      | Some n \<Rightarrow> call [NodeDisconnect n] s)"

definition closeContext :: "nat option \<Rightarrow> ('t, 'b) component \<Rightarrow> ('t, 'b) component" where
  "closeContext r s =
     (case r of
        None \<Rightarrow> s
      | Some c \<Rightarrow> if contextState s c \<noteq> Closed then call [ContextClose c] s else s)"

definition closeSession :: "('t, 'b) component \<Rightarrow> ('t, 'b) component" where
  "closeSession s =
     (case sessionPromiseRef s of
        None \<Rightarrow> s
      | Some p \<Rightarrow> s\<lparr>jobs := jobs s @ [(p, ThenClose)]\<rparr>)"

definition stopSources :: "('t, 'b) component \<Rightarrow> ('t, 'b) component" where
  "stopSources s = (call (map SourceStop (sourcesRef s)) s)\<lparr>sourcesRef := []\<rparr>"

definition clearRefs :: "('t::zero, 'b) component \<Rightarrow> ('t, 'b) component" where
  "clearRefs s =
     s\<lparr>mediaStreamRef := None, scriptProcessorRef := None, inputAudioContextRef := None,
       outputAudioContextRef := None, sessionPromiseRef := None, nextStartTimeRef := 0\<rparr>"

definition cleanup :: "('t::zero, 'b) component \<Rightarrow> ('t, 'b) component" where
  "cleanup s =
     (let s1 = stopTracks s;
          s2 = disconnectProcessor s1;
          s3 = closeContext (inputAudioContextRef s2) s2;
          s4 = closeContext (outputAudioContextRef s3) s3;
          s5 = closeSession s4;
          s6 = stopSources s5
      in clearRefs s6)"

text \<open>The effect of \<open>useEffect\<close>'s disposer: the component is unmounted.\<close>

definition unmount :: "('t::zero, 'b) component \<Rightarrow> ('t, 'b) component" where
  "unmount s = drain (cleanup s)"

subsection \<open>Stop, transport error, transport close\<close>

text \<open>Lines 183 to 186.\<close>

definition handleStopChat :: "('t::zero, 'b) component \<Rightarrow> ('t, 'b) component" where
  "handleStopChat s = drain (cleanup (s\<lparr>status := Stopped\<rparr>))"

text \<open>Lines 157 to 162.\<close>

definition onerror :: "('t::zero, 'b) component \<Rightarrow> ('t, 'b) component" where
  "onerror s =
     drain (cleanup
       (s\<lparr>console := console s @ [SessionErrorLog],
          error := Some ''An error occurred during the chat session.'',
          status := Error\<rparr>))"

text \<open>Lines 163 to 166.\<close>

definition onclose :: "('t::zero, 'b) component \<Rightarrow> ('t, 'b) component" where
  "onclose s =
     drain (cleanup (s\<lparr>status := (if status s = Error then Error else Stopped)\<rparr>))"

subsection \<open>handleStartChat (lines 62 to 181)\<close>

text \<open>
  What the browser and the SDK answer to one start: the result of \<open>getUserMedia\<close>, of
  the two \<open>AudioContext\<close> constructors and of \<open>resume()\<close> (a failure is \<open>Inl\<close>), the
  buffer source created to unlock the output context, and the promise \<open>connect\<close> returns.
\<close>

record start_env =
  getUserMedia :: "js_error + MediaStream"
  newInputContext :: "js_error + nat"
  newOutputContext :: "js_error + nat"
  unlockSource :: nat
  resume :: "js_error + unit"
  connect :: nat

definition start_prologue :: "('t, 'b) component \<Rightarrow> ('t, 'b) component" where
  "start_prologue s = s\<lparr>status := Connecting, error := None, transcript := []\<rparr>"

text \<open>The one \<open>catch\<close> block, lines 176 to 180.\<close>

definition start_catch :: "js_error \<Rightarrow> ('t, 'b) component \<Rightarrow> ('t, 'b) component" where
  "start_catch e s =
     s\<lparr>console := console s @ [StartFailedLog e],
       error := Some ''Could not access microphone. Please check permissions and try again.'',
       status := Error\<rparr>"

text \<open>
  The \<open>try\<close> block, lines 71 to 174. A ref assigned before a failing step keeps its
  value: the \<open>catch\<close> block releases nothing.
\<close>

definition start_unlock ::
  "start_env \<Rightarrow> nat \<Rightarrow> ('t::zero, 'b) component \<Rightarrow> js_error option \<times> ('t, 'b) component" where
  "start_unlock env oc s =
     (if contextState s oc = Suspended
      then (case resume env of Inl e \<Rightarrow> Some e | Inr _ \<Rightarrow> None,
            call [ConnectDestination (unlockSource env) oc,
                  SourceStart (unlockSource env) 0, ContextResume oc] s)
      else (None, s))"

definition start_acquire ::
  "start_env \<Rightarrow> ('t::zero, 'b) component \<Rightarrow> ('t, 'b) component" where
  "start_acquire env s =
     (case getUserMedia env of
        Inl e \<Rightarrow> start_catch e s
      | Inr stream \<Rightarrow>
          (let s1 = s\<lparr>mediaStreamRef := Some stream\<rparr> in
           case newInputContext env of
             Inl e \<Rightarrow> start_catch e s1
           | Inr ic \<Rightarrow>
               (let s2 = s1\<lparr>inputAudioContextRef := Some ic\<rparr> in
                case newOutputContext env of
                  Inl e \<Rightarrow> start_catch e s2
                | Inr oc \<Rightarrow>
                    (let s3 = s2\<lparr>outputAudioContextRef := Some oc\<rparr> in
                     case start_unlock env oc s3 of
                       (Some e, s4) \<Rightarrow> start_catch e s4
                     | (None, s4) \<Rightarrow> s4\<lparr>sessionPromiseRef := Some (connect env)\<rparr>))))"

text \<open>
  The handler suspends at \<open>await getUserMedia\<close>, after \<open>cleanup\<close>: the reactions
  \<open>cleanup\<close> registered run there. The second suspension (\<open>await context.resume()\<close>) is
  not split off: no other handler is interleaved with the acquisition here.
\<close>

definition handleStartChat ::
  "start_env \<Rightarrow> ('t::zero, 'b) component \<Rightarrow> ('t, 'b) component" where
  "handleStartChat env s = start_acquire env (drain (cleanup (start_prologue s)))"

text \<open>Which step of the acquisition fails, if any; \<open>cs\<close> is the state of the contexts.\<close>

definition start_failure :: "start_env \<Rightarrow> (nat \<Rightarrow> AudioContextState) \<Rightarrow> js_error option" where
  "start_failure env cs =
     (case getUserMedia env of
        Inl e \<Rightarrow> Some e
      | Inr _ \<Rightarrow>
          (case newInputContext env of
             Inl e \<Rightarrow> Some e
           | Inr _ \<Rightarrow>
               (case newOutputContext env of
                  Inl e \<Rightarrow> Some e
                | Inr oc \<Rightarrow>
                    (if cs oc = Suspended
                     then (case resume env of Inl e \<Rightarrow> Some e | Inr _ \<Rightarrow> None)
                     else None))))"

subsection \<open>The transport callbacks\<close>

datatype outcome = Returned | Threw js_error | Decoding string nat

text \<open>
  \<open>onopen\<close>, lines 97 to 120. The arguments are the three nodes it creates: the stream
  source, the script processor and the gain node. \<open>inputAudioContextRef.current!\<close> is
  dereferenced without a check.
\<close>

definition onopen ::
  "nat \<Rightarrow> nat \<Rightarrow> nat \<Rightarrow> ('t, 'b) component \<Rightarrow> outcome \<times> ('t, 'b) component" where
  "onopen src proc gain s =
     (let s1 = s\<lparr>status := Active\<rparr> in
      case inputAudioContextRef s1 of
        None \<Rightarrow> (Threw TypeError, s1)
      | Some ic \<Rightarrow>
          (Returned,
           call [NodeConnect src proc, GainSetZero gain, NodeConnect proc gain,
                 ConnectDestination gain ic]
             (s1\<lparr>scriptProcessorRef := Some proc\<rparr>)))"

text \<open>
  \<open>onaudioprocess\<close>, lines 104 to 110. \<open>createPcmBlob\<close> is defined in utils/audioUtils,
  which is not part of the sources at hand; it is a parameter.
\<close>

definition onaudioprocess ::
  "('f \<Rightarrow> 'b) \<Rightarrow> 'f \<Rightarrow> ('t, 'b) component \<Rightarrow> ('t, 'b) component" where
  "onaudioprocess createPcmBlob inputData s =
     (let pcmBlob = createPcmBlob inputData in
      drain (case sessionPromiseRef s of
               None \<Rightarrow> s
             | Some p \<Rightarrow> s\<lparr>jobs := jobs s @ [(p, ThenSend pcmBlob)]\<rparr>))"

text \<open>\<open>onmessage\<close>, lines 121 to 156: the transcription fragments, lines 123 to 128.\<close>

definition handleTranscription ::
  "LiveServerMessage \<Rightarrow> ('t, 'b) component \<Rightarrow> ('t, 'b) component" where
  "handleTranscription message s =
     (let s1 = (case serverContent message of
                  None \<Rightarrow> s
                | Some sc \<Rightarrow>
                    (case outputTranscription sc of
                       None \<Rightarrow> s
                     | Some tr \<Rightarrow>
                         s\<lparr>currentOutputTranscriptionRef :=
                             js_append (currentOutputTranscriptionRef s) (transcription_text tr)\<rparr>))
      in case serverContent message of
           None \<Rightarrow> s1
         | Some sc \<Rightarrow>
             (case inputTranscription sc of
                None \<Rightarrow> s1
              | Some tr \<Rightarrow>
                  s1\<lparr>currentInputTranscriptionRef :=
                       js_append (currentInputTranscriptionRef s1) (transcription_text tr)\<rparr>))"

text \<open>The turn-complete signal, lines 129 to 137.\<close>

definition is_turnComplete :: "LiveServerMessage \<Rightarrow> bool" where
  "is_turnComplete message =
     (case serverContent message of
        None \<Rightarrow> False
      | Some sc \<Rightarrow> turnComplete sc = Some True)"

definition handleTurnComplete ::
  "LiveServerMessage \<Rightarrow> ('t, 'b) component \<Rightarrow> ('t, 'b) component" where
  "handleTurnComplete message s =
     (if is_turnComplete message
      then (let fullInput = currentInputTranscriptionRef s;
                fullOutput = currentOutputTranscriptionRef s;
                s1 = (if truthy (trim fullInput) \<or> truthy (trim fullOutput)
                      then s\<lparr>transcript := transcript s @
                               [\<lparr>speaker = User, entry_text = fullInput\<rparr>,
                                \<lparr>speaker = Model, entry_text = fullOutput\<rparr>]\<rparr>
                      else s)
            in s1\<lparr>currentInputTranscriptionRef := [], currentOutputTranscriptionRef := []\<rparr>)
      else s)"

text \<open>
  Line 140: \<open>message.serverContent?.modelTurn?.parts[0]?.inlineData.data\<close>. The chain
  is optional at \<open>serverContent\<close>, at \<open>modelTurn\<close> and at \<open>parts[0]\<close>; \<open>parts\<close> itself and
  \<open>inlineData\<close> are dereferenced without a check.
\<close>

definition base64Audio :: "LiveServerMessage \<Rightarrow> js_error + string option" where
  "base64Audio message =
     (case serverContent message of
        None \<Rightarrow> Inr None
      | Some sc \<Rightarrow>
          (case modelTurn sc of
             None \<Rightarrow> Inr None
           | Some mt \<Rightarrow>
               (case parts mt of
                  None \<Rightarrow> Inl TypeError
                | Some [] \<Rightarrow> Inr None
                | Some (p # _) \<Rightarrow>
                    (case inlineData p of
                       None \<Rightarrow> Inl TypeError
                     | Some b \<Rightarrow> Inr (data b)))))"

text \<open>
  The handler up to its \<open>await\<close> (line 144). \<open>now\<close> is \<open>outputAudioContext.currentTime\<close>
  as line 143 reads it.
\<close>

definition onmessage_begin ::
  "LiveServerMessage \<Rightarrow> 't::linorder \<Rightarrow> ('t, 'b) component \<Rightarrow> outcome \<times> ('t, 'b) component" where
  "onmessage_begin message now s =
     (let s2 = handleTurnComplete message (handleTranscription message s) in
      case base64Audio message of
        Inl e \<Rightarrow> (Threw e, s2)
      | Inr None \<Rightarrow> (Returned, s2)
      | Inr (Some b) \<Rightarrow>
          (if truthy b
           then (case outputAudioContextRef s2 of
                   None \<Rightarrow> (Returned, s2)
                 | Some c \<Rightarrow>
                     (Decoding b c,
                      s2\<lparr>nextStartTimeRef := max (nextStartTimeRef s2) now\<rparr>))
           else (Returned, s2)))"

text \<open>
  The handler after the \<open>await\<close>, lines 146 to 154: \<open>c\<close> is the context the handler read
  before it suspended, \<open>source\<close> the node \<open>createBufferSource\<close> returns, \<open>duration\<close> the
  duration of the decoded buffer.
\<close>

definition onmessage_resume ::
  "nat \<Rightarrow> nat \<Rightarrow> 't::plus \<Rightarrow> ('t, 'b) component \<Rightarrow> ('t, 'b) component" where
  "onmessage_resume c source duration s =
     (let s1 = call [ConnectDestination source c, SourceStart source (nextStartTimeRef s)] s
      in s1\<lparr>nextStartTimeRef := nextStartTimeRef s1 + duration,
            sourcesRef := set_add source (sourcesRef s1)\<rparr>)"

text \<open>
  A message handled with no other handler in between. \<open>decode\<close> and \<open>decodeAudioData\<close>
  are defined in utils/audioUtils; \<open>decoded\<close> is what they answer, a failure or the
  duration of the buffer.
\<close>

definition onmessage ::
  "LiveServerMessage \<Rightarrow> 't::{linorder,plus} \<Rightarrow> js_error + 't \<Rightarrow> nat \<Rightarrow>
     ('t, 'b) component \<Rightarrow> outcome \<times> ('t, 'b) component" where
  "onmessage message now decoded source s =
     (case onmessage_begin message now s of
        (Decoding b c, s1) \<Rightarrow>
          (case decoded of
             Inl e \<Rightarrow> (Threw e, s1)
           | Inr duration \<Rightarrow> (Returned, onmessage_resume c source duration s1))
      | r \<Rightarrow> r)"

text \<open>The \<open>ended\<close> listener of a playback source, lines 149 to 151.\<close>

definition ended :: "nat \<Rightarrow> ('t, 'b) component \<Rightarrow> ('t, 'b) component" where
  "ended source s = s\<lparr>sourcesRef := set_delete source (sourcesRef s)\<rparr>"

subsection \<open>States\<close>

text \<open>
  The state the component is mounted with (lines 20 to 32); \<open>cs\<close> and \<open>ps\<close> are the
  browser's side.
\<close>

definition initial :: "(nat \<Rightarrow> AudioContextState) \<Rightarrow> (nat \<Rightarrow> promise_state) \<Rightarrow> ('t::zero, 'b) component" where
  "initial cs ps =
     \<lparr>status = Idle, transcript = [], error = None, sessionPromiseRef = None,
      inputAudioContextRef = None, outputAudioContextRef = None, scriptProcessorRef = None,
      mediaStreamRef = None, sourcesRef = [], nextStartTimeRef = 0,
      currentInputTranscriptionRef = [], currentOutputTranscriptionRef = [],
      contextState = cs, promiseState = ps, jobs = [], effects = [], console = []\<rparr>"

text \<open>No resource is held: every handle is null, no source is playing, the clock is 0.\<close>

definition cleared :: "('t::zero, 'b) component \<Rightarrow> bool" where
  "cleared s \<longleftrightarrow>
     mediaStreamRef s = None \<and> scriptProcessorRef s = None \<and> inputAudioContextRef s = None \<and>
     outputAudioContextRef s = None \<and> sessionPromiseRef s = None \<and> sourcesRef s = [] \<and>
     nextStartTimeRef s = 0"

text \<open>
  Between two handlers no reaction is ready to run: the ones registered wait for a
  pending promise.
\<close>

definition quiescent :: "('t, 'b) component \<Rightarrow> bool" where
  "quiescent s \<longleftrightarrow> list_all (is_pending (promiseState s)) (jobs s)"

text \<open>The calls that release what the handles hold, step by step as \<open>cleanup\<close> makes them.\<close>

definition track_stops :: "MediaStream option \<Rightarrow> ('t, 'b) effect list" where
  "track_stops r = (case r of None \<Rightarrow> [] | Some ms \<Rightarrow> map TrackStop (getTracks ms))"

definition node_disconnects :: "nat option \<Rightarrow> ('t, 'b) effect list" where
  "node_disconnects r = (case r of None \<Rightarrow> [] | Some n \<Rightarrow> [NodeDisconnect n])"

definition context_closes :: "(nat \<Rightarrow> AudioContextState) \<Rightarrow> nat option \<Rightarrow> ('t, 'b) effect list" where
  "context_closes cs r =
     (case r of None \<Rightarrow> [] | Some c \<Rightarrow> if cs c \<noteq> Closed then [ContextClose c] else [])"

definition release_calls :: "('t, 'b) component \<Rightarrow> ('t, 'b) effect list" where
  "release_calls s =
     track_stops (mediaStreamRef s) @ node_disconnects (scriptProcessorRef s) @
     context_closes (contextState s) (inputAudioContextRef s) @
     context_closes (contextState s) (outputAudioContextRef s) @
     map SourceStop (sourcesRef s)"

definition close_job :: "nat option \<Rightarrow> (nat \<times> 'b reaction) list" where
  "close_job r = (case r of None \<Rightarrow> [] | Some p \<Rightarrow> [(p, ThenClose)])"

definition session_closes :: "(nat \<Rightarrow> promise_state) \<Rightarrow> nat option \<Rightarrow> ('t, 'b) effect list" where
  "session_closes ps r =
     (case r of None \<Rightarrow> [] | Some p \<Rightarrow> if ps p = Fulfilled then [SessionClose p] else [])"

text \<open>The calls and the log entries a list of reactions produces when it is run.\<close>

fun job_effects :: "(nat \<Rightarrow> promise_state) \<Rightarrow> (nat \<times> 'b reaction) list \<Rightarrow> ('t, 'b) effect list" where
  "job_effects ps [] = []"
| "job_effects ps ((p, ThenSend b) # js) =
     (if ps p = Fulfilled then [SendRealtimeInput p b] else []) @ job_effects ps js"
| "job_effects ps ((p, ThenClose) # js) =
     (if ps p = Fulfilled then [SessionClose p] else []) @ job_effects ps js"

fun job_logs :: "(nat \<Rightarrow> promise_state) \<Rightarrow> (nat \<times> 'b reaction) list \<Rightarrow> console_entry list" where
  "job_logs ps [] = []"
| "job_logs ps ((p, ThenSend b) # js) = job_logs ps js"
| "job_logs ps ((p, ThenClose) # js) =
     (case ps p of Rejected e \<Rightarrow> [RejectionLog e] | _ \<Rightarrow> []) @ job_logs ps js"

subsection \<open>A session in progress\<close>

text \<open>
  A state with every resource held: one microphone track, the capture node, both audio
  contexts running, the session promise fulfilled, two sources playing, one turn in the
  transcript and a fragment of the next in the accumulator.
\<close>

definition active_session :: "(rat, string) component" where
  "active_session =
     \<lparr>status = Active,
      transcript = [\<lparr>speaker = User, entry_text = ''Hola''\<rparr>, \<lparr>speaker = Model, entry_text = ''Buenos dias''\<rparr>],
      error = None, sessionPromiseRef = Some 5,
      inputAudioContextRef = Some 3, outputAudioContextRef = Some 4, scriptProcessorRef = Some 2,
      mediaStreamRef = Some \<lparr>getTracks = [1]\<rparr>, sourcesRef = [6, 7], nextStartTimeRef = 13 / 10,
      currentInputTranscriptionRef = ''Que'', currentOutputTranscriptionRef = [],
      contextState = (\<lambda>_. Running), promiseState = (\<lambda>_. Fulfilled), jobs = [], effects = [],
      console = []\<rparr>"

subsection \<open>Sequences of events\<close>

text \<open>
  An inbound audio chunk as the handler meets it: the message, the reading of the output
  clock when the handler runs, the duration of the buffer decoded from it and the source
  node created for it.
\<close>

type_synonym 't chunk = "LiveServerMessage \<times> 't \<times> 't \<times> nat"

definition clock :: "'t chunk \<Rightarrow> 't" where
  "clock ch = fst (snd ch)"

definition duration :: "'t chunk \<Rightarrow> 't" where
  "duration ch = fst (snd (snd ch))"

text \<open>The message carries a non-empty audio payload (line 141, first conjunct).\<close>

definition carries_audio :: "LiveServerMessage \<Rightarrow> bool" where
  "carries_audio m = (case base64Audio m of Inr (Some b) \<Rightarrow> truthy b | _ \<Rightarrow> False)"

text \<open>Chunks handled one after the other, each to its end before the next arrives.\<close>

fun deliver :: "('t::{linorder,plus}) chunk list \<Rightarrow> ('t, 'b) component \<Rightarrow> ('t, 'b) component" where
  "deliver [] s = s"
| "deliver ((m, now, d, source) # cs) s = deliver cs (snd (onmessage m now (Inr d) source s))"

text \<open>The start times in a trace, and those a delivery adds to it.\<close>

fun start_times :: "('t, 'b) effect list \<Rightarrow> 't list" where
  "start_times [] = []"
| "start_times (SourceStart source t # es) = t # start_times es"
| "start_times (e # es) = start_times es"

definition scheduled :: "('t::{linorder,plus}) chunk list \<Rightarrow> ('t, 'b) component \<Rightarrow> 't list" where
  "scheduled cs s = start_times (drop (length (effects s)) (effects (deliver cs s)))"

text \<open>
  The scheduling law in the words of the specification: a chunk starts at the later of
  the previous start plus the previous duration and the clock at its arrival; \<open>nx\<close> is
  that sum for the first chunk.
\<close>

fun gapless_law :: "('t::{linorder,plus}) \<Rightarrow> 't chunk list \<Rightarrow> 't list" where
  "gapless_law nx [] = []"
| "gapless_law nx (ch # cs) = max nx (clock ch) # gapless_law (max nx (clock ch) + duration ch) cs"

text \<open>The calls a delivery makes on context \<open>c\<close>.\<close>

fun playback_calls :: "nat \<Rightarrow> ('t::{linorder,plus}) \<Rightarrow> 't chunk list \<Rightarrow> ('t, 'b) effect list" where
  "playback_calls c nx [] = []"
| "playback_calls c nx ((m, now, d, source) # cs) =
     [ConnectDestination source c, SourceStart source (max nx now)] @
     playback_calls c (max nx now + d) cs"

text \<open>The capture callback fired once per frame, in order.\<close>

definition capture :: "('f \<Rightarrow> 'b) \<Rightarrow> 'f list \<Rightarrow> ('t, 'b) component \<Rightarrow> ('t, 'b) component" where
  "capture createPcmBlob frames s = fold (onaudioprocess createPcmBlob) frames s"

text \<open>The three callbacks that can still arrive when a session has ended.\<close>

datatype ('t, 'f) callback =
    CaptureFrame 'f
  | InboundMessage LiveServerMessage 't "js_error + 't" nat
  | PlaybackEnded nat

fun fire :: "('f \<Rightarrow> 'b) \<Rightarrow> ('t::{linorder,plus}, 'f) callback \<Rightarrow> ('t, 'b) component \<Rightarrow> ('t, 'b) component" where
  "fire createPcmBlob (CaptureFrame inputData) s = onaudioprocess createPcmBlob inputData s"
| "fire createPcmBlob (InboundMessage message now decoded source) s =
     snd (onmessage message now decoded source s)"
| "fire createPcmBlob (PlaybackEnded source) s = ended source s"

subsection \<open>Messages, environments and states used as examples\<close>

definition audio_message :: "string \<Rightarrow> LiveServerMessage" where
  "audio_message b =
     \<lparr>serverContent = Some
        \<lparr>inputTranscription = None, outputTranscription = None, turnComplete = None,
         modelTurn = Some \<lparr>parts = Some [\<lparr>inlineData = Some \<lparr>data = Some b\<rparr>, part_text = None\<rparr>]\<rparr>\<rparr>\<rparr>"

definition turn_complete_message :: LiveServerMessage where
  "turn_complete_message =
     \<lparr>serverContent = Some
        \<lparr>inputTranscription = None, outputTranscription = None, turnComplete = Some True,
         modelTurn = None\<rparr>\<rparr>"

definition text_part_message :: LiveServerMessage where
  "text_part_message =
     \<lparr>serverContent = Some
        \<lparr>inputTranscription = None, outputTranscription = None, turnComplete = None,
         modelTurn = Some \<lparr>parts = Some [\<lparr>inlineData = None, part_text = Some ''Hello''\<rparr>]\<rparr>\<rparr>\<rparr>"

definition no_parts_message :: LiveServerMessage where
  "no_parts_message =
     \<lparr>serverContent = Some
        \<lparr>inputTranscription = None, outputTranscription = None, turnComplete = None,
         modelTurn = Some \<lparr>parts = None\<rparr>\<rparr>\<rparr>"

definition example_chunks :: "rat chunk list" where
  "example_chunks =
     [(audio_message ''AAAA'', 0, 1 / 2, 8), (audio_message ''BBBB'', 3 / 5, 3 / 10, 9),
      (audio_message ''CCCC'', 9 / 10, 2 / 5, 10)]"

definition mic_denied :: start_env where
  "mic_denied =
     \<lparr>getUserMedia = Inl NotAllowedError, newInputContext = Inr 3, newOutputContext = Inr 4,
      unlockSource = 9, resume = Inr (), connect = 5\<rparr>"

definition graph_failure :: start_env where
  "graph_failure =
     \<lparr>getUserMedia = Inr \<lparr>getTracks = [1]\<rparr>, newInputContext = Inl NotSupportedError,
      newOutputContext = Inr 4, unlockSource = 9, resume = Inr (), connect = 5\<rparr>"

definition all_granted :: start_env where
  "all_granted =
     \<lparr>getUserMedia = Inr \<lparr>getTracks = [1]\<rparr>, newInputContext = Inr 3,
      newOutputContext = Inr 4, unlockSource = 9, resume = Inr (), connect = 5\<rparr>"

definition mounted :: "(rat, string) component" where
  "mounted = initial (\<lambda>_. Suspended) (\<lambda>_. Pending)"

text \<open>What a start reports of its failure: the status and the message shown.\<close>

definition reported :: "('t, 'b) component \<Rightarrow> ChatStatus \<times> string option" where
  "reported s = (status s, error s)"

section \<open>Properties\<close>

subsection \<open>Reactions and cleanup in closed form\<close>

lemma fold_run_job:
  "fold run_job js s =
     s\<lparr>effects := effects s @ job_effects (promiseState s) js,
       console := console s @ job_logs (promiseState s) js\<rparr>"
proof (induction js arbitrary: s)
  case Nil
  show ?case by simp
next
  case (Cons j js)
  obtain p r where j: "j = (p, r)" by (cases j)
  show ?case
    by (cases r; cases "promiseState s p") (simp_all add: j Cons call_def)
qed

lemma drain_eq:
  "drain s =
     s\<lparr>jobs := filter (is_pending (promiseState s)) (jobs s),
       effects := effects s @
         job_effects (promiseState s) (filter (\<lambda>j. \<not> is_pending (promiseState s) j) (jobs s)),
       console := console s @
         job_logs (promiseState s) (filter (\<lambda>j. \<not> is_pending (promiseState s) j) (jobs s))\<rparr>"
  by (simp add: drain_def fold_run_job)

lemma quiescent_filter:
  "quiescent s \<Longrightarrow> filter (is_pending (promiseState s)) (jobs s) = jobs s"
  "quiescent s \<Longrightarrow> filter (\<lambda>j. \<not> is_pending (promiseState s) j) (jobs s) = []"
  by (auto simp: quiescent_def list_all_iff filter_empty_conv)

lemma drain_quiescent: "quiescent s \<Longrightarrow> drain s = s"
  by (simp add: drain_eq quiescent_filter)

lemma quiescent_drain: "quiescent (drain s)"
  by (simp add: drain_eq quiescent_def is_pending_def list_all_iff)

lemma is_pending_pair: "is_pending ps (p, r) \<longleftrightarrow> ps p = Pending"
  by (simp add: is_pending_def)

lemma stopTracks_eq: "stopTracks s = s\<lparr>effects := effects s @ track_stops (mediaStreamRef s)\<rparr>"
  by (cases "mediaStreamRef s") (simp_all add: stopTracks_def track_stops_def call_def)

lemma disconnectProcessor_eq:
  "disconnectProcessor s = s\<lparr>effects := effects s @ node_disconnects (scriptProcessorRef s)\<rparr>"
  by (cases "scriptProcessorRef s") (simp_all add: disconnectProcessor_def node_disconnects_def call_def)

lemma closeContext_eq:
  "closeContext r s = s\<lparr>effects := effects s @ context_closes (contextState s) r\<rparr>"
  by (cases r) (simp_all add: closeContext_def context_closes_def call_def)

lemma closeSession_eq:
  "closeSession s = s\<lparr>jobs := jobs s @ close_job (sessionPromiseRef s)\<rparr>"
  by (cases "sessionPromiseRef s") (simp_all add: closeSession_def close_job_def)

lemma cleanup_eq:
  "cleanup s =
     s\<lparr>mediaStreamRef := None, scriptProcessorRef := None, inputAudioContextRef := None,
       outputAudioContextRef := None, sessionPromiseRef := None, sourcesRef := [],
       nextStartTimeRef := 0,
       jobs := jobs s @ close_job (sessionPromiseRef s),
       effects := effects s @ release_calls s\<rparr>"
  by (simp add: cleanup_def Let_def clearRefs_def stopSources_def closeSession_eq closeContext_eq
    disconnectProcessor_eq stopTracks_eq call_def release_calls_def)

lemma cleanup_cleared: "cleared s \<Longrightarrow> cleanup s = s"
  by (simp add: cleanup_eq cleared_def release_calls_def track_stops_def
    node_disconnects_def context_closes_def close_job_def)

lemma cleared_cleanup: "cleared (cleanup s)"
  by (simp add: cleanup_eq cleared_def)

lemma cleared_drain: "cleared (drain s) = cleared s"
  by (simp add: drain_eq cleared_def)

lemma cleanup_fields:
  "mediaStreamRef (cleanup s) = None" "scriptProcessorRef (cleanup s) = None"
  "inputAudioContextRef (cleanup s) = None" "outputAudioContextRef (cleanup s) = None"
  "sessionPromiseRef (cleanup s) = None" "sourcesRef (cleanup s) = []"
  "nextStartTimeRef (cleanup s) = 0"
  "effects (cleanup s) = effects s @ release_calls s"
  "jobs (cleanup s) = jobs s @ close_job (sessionPromiseRef s)"
  "status (cleanup s) = status s" "transcript (cleanup s) = transcript s"
  "error (cleanup s) = error s" "console (cleanup s) = console s"
  "contextState (cleanup s) = contextState s" "promiseState (cleanup s) = promiseState s"
  "currentInputTranscriptionRef (cleanup s) = currentInputTranscriptionRef s"
  "currentOutputTranscriptionRef (cleanup s) = currentOutputTranscriptionRef s"
  by (simp_all add: cleanup_eq)

text \<open>
  C1. Cleanup is idempotent. Running \<open>cleanup\<close> twice gives the state one run gives,
  within one handler and in two successive handlers; on the state the component is
  mounted with, where nothing was acquired, it changes nothing. After it every handle
  (microphone stream, capture node, input and output audio context, session promise) is
  null, the set of playing sources is empty and the next start time is 0. Every step is
  carried out whatever the state of the contexts and of the session promise: the trace
  gains the release calls of all steps and the session close is registered; the steps
  that can fail report their failure after \<open>cleanup\<close> has returned, to the console, and
  the handles stay cleared.
\<close>

theorem cleanup_idempotent:
  "cleanup (cleanup s) = cleanup s
   \<and> unmount (unmount s) = unmount s
   \<and> cleanup (initial cs ps :: ('t::zero, 'b) component) = initial cs ps
   \<and> mediaStreamRef (cleanup s) = None \<and> scriptProcessorRef (cleanup s) = None
   \<and> inputAudioContextRef (cleanup s) = None \<and> outputAudioContextRef (cleanup s) = None
   \<and> sessionPromiseRef (cleanup s) = None \<and> sourcesRef (cleanup s) = []
   \<and> nextStartTimeRef (cleanup s) = 0
   \<and> effects (cleanup s) = effects s @ release_calls s
   \<and> jobs (cleanup s) = jobs s @ close_job (sessionPromiseRef s)
   \<and> cleared (unmount s) \<and> cleared (on_rejection e (unmount s))"
proof -
  have twice: "cleanup (cleanup s) = cleanup s"
    by (rule cleanup_cleared) (rule cleared_cleanup)
  have c: "cleared (unmount s)"
    by (simp add: unmount_def cleared_drain cleared_cleanup)
  then have "cleanup (unmount s) = unmount s"
    by (rule cleanup_cleared)
  then have tasks: "unmount (unmount s) = unmount s"
    by (simp add: unmount_def drain_quiescent quiescent_drain)
  have fresh: "cleanup (initial cs ps :: ('t, 'b) component) = initial cs ps"
    by (rule cleanup_cleared) (simp add: cleared_def initial_def)
  have r: "cleared (on_rejection e (unmount s))"
    using c by (simp add: on_rejection_def cleared_def)
  show ?thesis
    by (intro conjI twice tasks fresh c r cleanup_fields)
qed

subsection \<open>Stop, error and close\<close>

lemma drain_fields:
  "status (drain s) = status s" "transcript (drain s) = transcript s"
  "error (drain s) = error s" "sessionPromiseRef (drain s) = sessionPromiseRef s"
  "inputAudioContextRef (drain s) = inputAudioContextRef s"
  "outputAudioContextRef (drain s) = outputAudioContextRef s"
  "scriptProcessorRef (drain s) = scriptProcessorRef s"
  "mediaStreamRef (drain s) = mediaStreamRef s" "sourcesRef (drain s) = sourcesRef s"
  "nextStartTimeRef (drain s) = nextStartTimeRef s"
  "currentInputTranscriptionRef (drain s) = currentInputTranscriptionRef s"
  "currentOutputTranscriptionRef (drain s) = currentOutputTranscriptionRef s"
  "contextState (drain s) = contextState s" "promiseState (drain s) = promiseState s"
  by (simp_all add: drain_eq)

lemma job_effects_close_job:
  "job_effects ps (filter (\<lambda>j. \<not> is_pending ps j) (close_job r)) = session_closes ps r"
  by (cases r) (simp_all add: close_job_def session_closes_def is_pending_def)

lemma effects_drain_cleanup:
  assumes "quiescent s"
  shows "effects (drain (cleanup s)) =
     effects s @ release_calls s @ session_closes (promiseState s) (sessionPromiseRef s)"
  using assms
  by (simp add: drain_eq cleanup_fields quiescent_filter job_effects_close_job)

lemma release_calls_simps [simp]:
  "release_calls (s\<lparr>status := a\<rparr>) = release_calls s"
  "release_calls (s\<lparr>error := b\<rparr>) = release_calls s"
  "release_calls (s\<lparr>console := c\<rparr>) = release_calls s"
  by (simp_all add: release_calls_def)

text \<open>
  C4. A transport error leaves the status \<open>Error\<close> and a non-empty error message, and
  releases everything: the calls made are the stop of every microphone track, the
  disconnect of the capture node, the close of each audio context that is not closed,
  the stop of every playing source and the close of the session; afterwards no handle
  is held and no source is in the active set. The transcript is the one before the
  error. This holds from any state between two handlers, an active session included.
\<close>

theorem onerror_transition:
  assumes "quiescent s"
  shows "status (onerror s) = Error
    \<and> error (onerror s) = Some ''An error occurred during the chat session.''
    \<and> error (onerror s) \<noteq> Some []
    \<and> transcript (onerror s) = transcript s
    \<and> cleared (onerror s)
    \<and> effects (onerror s) =
        effects s @ track_stops (mediaStreamRef s) @ node_disconnects (scriptProcessorRef s) @
        context_closes (contextState s) (inputAudioContextRef s) @
        context_closes (contextState s) (outputAudioContextRef s) @
        map SourceStop (sourcesRef s) @
        session_closes (promiseState s) (sessionPromiseRef s)"
proof -
  let ?s = "s\<lparr>console := console s @ [SessionErrorLog],
          error := Some ''An error occurred during the chat session.'',
          status := Error\<rparr>"
  have q: "quiescent ?s" using assms by (simp add: quiescent_def)
  have e: "effects (onerror s) =
      effects ?s @ release_calls ?s @ session_closes (promiseState ?s) (sessionPromiseRef ?s)"
    unfolding onerror_def by (rule effects_drain_cleanup [OF q])
  have c: "cleared (onerror s)"
    by (simp add: onerror_def cleared_drain cleared_cleanup)
  show ?thesis
    using c e by (simp add: onerror_def drain_fields cleanup_fields release_calls_def)
qed


theorem onerror_transition_witness:
  "quiescent active_session \<and> status active_session = Active
   \<and> status (onerror active_session) = Error
   \<and> error (onerror active_session) = Some ''An error occurred during the chat session.''
   \<and> transcript (onerror active_session) =
       [\<lparr>speaker = User, entry_text = ''Hola''\<rparr>, \<lparr>speaker = Model, entry_text = ''Buenos dias''\<rparr>]
   \<and> sourcesRef (onerror active_session) = []
   \<and> effects (onerror active_session) =
       [TrackStop 1, NodeDisconnect 2, ContextClose 3, ContextClose 4, SourceStop 6, SourceStop 7,
        SessionClose 5]"
proof -
  have q: "quiescent active_session"
    by (simp add: quiescent_def active_session_def)
  from onerror_transition [OF q] show ?thesis
    using q
    by (simp add: active_session_def track_stops_def node_disconnects_def context_closes_def
      session_closes_def cleared_def)
qed

text \<open>
  C5. When the transport closes, the status stays \<open>Error\<close> if it was \<open>Error\<close> and becomes
  \<open>Stopped\<close> otherwise, and everything is released. \<open>handleStopChat\<close> sets the status
  to \<open>Stopped\<close> and releases everything, from any state; where nothing is held it only
  sets the status.
\<close>

theorem close_and_stop:
  assumes "quiescent s"
  shows "status (onclose s) = (if status s = Error then Error else Stopped)
    \<and> cleared (onclose s)
    \<and> effects (onclose s) =
        effects s @ release_calls s @ session_closes (promiseState s) (sessionPromiseRef s)
    \<and> status (handleStopChat s) = Stopped
    \<and> cleared (handleStopChat s)
    \<and> effects (handleStopChat s) =
        effects s @ release_calls s @ session_closes (promiseState s) (sessionPromiseRef s)
    \<and> (cleared s \<longrightarrow> handleStopChat s = s\<lparr>status := Stopped\<rparr>)"
proof -
  let ?c = "s\<lparr>status := (if status s = Error then Error else Stopped)\<rparr>"
  let ?h = "s\<lparr>status := Stopped\<rparr>"
  have qc: "quiescent ?c" and qh: "quiescent ?h"
    using assms by (simp_all add: quiescent_def)
  have ec: "effects (onclose s) =
      effects ?c @ release_calls ?c @ session_closes (promiseState ?c) (sessionPromiseRef ?c)"
    unfolding onclose_def by (rule effects_drain_cleanup [OF qc])
  have eh: "effects (handleStopChat s) =
      effects ?h @ release_calls ?h @ session_closes (promiseState ?h) (sessionPromiseRef ?h)"
    unfolding handleStopChat_def by (rule effects_drain_cleanup [OF qh])
  have cc: "cleared (onclose s)" and ch: "cleared (handleStopChat s)"
    by (simp_all add: onclose_def handleStopChat_def cleared_drain cleared_cleanup)
  have idle: "handleStopChat s = ?h" if "cleared s"
  proof -
    have "cleared ?h" using that by (simp add: cleared_def)
    then have "cleanup ?h = ?h" by (rule cleanup_cleared)
    then show ?thesis by (simp add: handleStopChat_def drain_quiescent qh)
  qed
  have st: "status (onclose s) = (if status s = Error then Error else Stopped)"
    "status (handleStopChat s) = Stopped"
    by (simp_all add: onclose_def handleStopChat_def drain_fields cleanup_fields)
  show ?thesis
    using cc ch ec eh idle st by simp
qed

theorem close_and_stop_witness:
  "quiescent active_session
   \<and> status (onclose active_session) = Stopped
   \<and> status (onclose (onerror active_session)) = Error
   \<and> cleared (onclose active_session)
   \<and> effects (handleStopChat active_session) =
       [TrackStop 1, NodeDisconnect 2, ContextClose 3, ContextClose 4, SourceStop 6, SourceStop 7,
        SessionClose 5]
   \<and> cleared (initial (\<lambda>_. Running) (\<lambda>_. Pending) :: (rat, string) component)
   \<and> handleStopChat (initial (\<lambda>_. Running) (\<lambda>_. Pending) :: (rat, string) component) =
       (initial (\<lambda>_. Running) (\<lambda>_. Pending))\<lparr>status := Stopped\<rparr>"
proof -
  let ?i = "initial (\<lambda>_. Running) (\<lambda>_. Pending) :: (rat, string) component"
  have q: "quiescent active_session"
    by (simp add: quiescent_def active_session_def)
  have qe: "quiescent (onerror active_session)"
    by (simp add: onerror_def quiescent_drain)
  have qi: "quiescent ?i"
    by (simp add: quiescent_def initial_def)
  have ci: "cleared ?i"
    by (simp add: cleared_def initial_def)
  have se: "status (onerror active_session) = Error"
    by (simp add: onerror_def drain_fields cleanup_fields)
  from close_and_stop [OF q] close_and_stop [OF qe] close_and_stop [OF qi] show ?thesis
    using q ci se
    by (simp add: active_session_def release_calls_def track_stops_def node_disconnects_def
      context_closes_def session_closes_def)
qed

subsection \<open>The transcript\<close>

lemma handleTranscription_fields:
  "transcript (handleTranscription m s) = transcript s"
  "status (handleTranscription m s) = status s"
  "error (handleTranscription m s) = error s"
  "sessionPromiseRef (handleTranscription m s) = sessionPromiseRef s"
  "inputAudioContextRef (handleTranscription m s) = inputAudioContextRef s"
  "outputAudioContextRef (handleTranscription m s) = outputAudioContextRef s"
  "scriptProcessorRef (handleTranscription m s) = scriptProcessorRef s"
  "mediaStreamRef (handleTranscription m s) = mediaStreamRef s"
  "sourcesRef (handleTranscription m s) = sourcesRef s"
  "nextStartTimeRef (handleTranscription m s) = nextStartTimeRef s"
  "contextState (handleTranscription m s) = contextState s"
  "promiseState (handleTranscription m s) = promiseState s"
  "jobs (handleTranscription m s) = jobs s"
  "effects (handleTranscription m s) = effects s"
  "console (handleTranscription m s) = console s"
  by (simp_all add: handleTranscription_def Let_def split: option.splits)

lemma handleTurnComplete_fields:
  "status (handleTurnComplete m s) = status s"
  "error (handleTurnComplete m s) = error s"
  "sessionPromiseRef (handleTurnComplete m s) = sessionPromiseRef s"
  "inputAudioContextRef (handleTurnComplete m s) = inputAudioContextRef s"
  "outputAudioContextRef (handleTurnComplete m s) = outputAudioContextRef s"
  "scriptProcessorRef (handleTurnComplete m s) = scriptProcessorRef s"
  "mediaStreamRef (handleTurnComplete m s) = mediaStreamRef s"
  "sourcesRef (handleTurnComplete m s) = sourcesRef s"
  "nextStartTimeRef (handleTurnComplete m s) = nextStartTimeRef s"
  "contextState (handleTurnComplete m s) = contextState s"
  "promiseState (handleTurnComplete m s) = promiseState s"
  "jobs (handleTurnComplete m s) = jobs s"
  "effects (handleTurnComplete m s) = effects s"
  "console (handleTurnComplete m s) = console s"
  by (simp_all add: handleTurnComplete_def Let_def)

text \<open>The transcript part of the handler: what the audio part does not touch.\<close>

lemma onmessage_begin_transcript:
  "transcript (snd (onmessage_begin m now s)) = transcript (handleTurnComplete m (handleTranscription m s))"
  "currentInputTranscriptionRef (snd (onmessage_begin m now s)) =
     currentInputTranscriptionRef (handleTurnComplete m (handleTranscription m s))"
  "currentOutputTranscriptionRef (snd (onmessage_begin m now s)) =
     currentOutputTranscriptionRef (handleTurnComplete m (handleTranscription m s))"
  by (simp_all add: onmessage_begin_def Let_def split: sum.splits option.splits)

lemma onmessage_transcript:
  "transcript (snd (onmessage m now dec src s)) = transcript (handleTurnComplete m (handleTranscription m s))"
  "currentInputTranscriptionRef (snd (onmessage m now dec src s)) =
     currentInputTranscriptionRef (handleTurnComplete m (handleTranscription m s))"
  "currentOutputTranscriptionRef (snd (onmessage m now dec src s)) =
     currentOutputTranscriptionRef (handleTurnComplete m (handleTranscription m s))"
  using onmessage_begin_transcript [of m now s]
  by (auto simp: onmessage_def onmessage_resume_def call_def Let_def
      split: prod.splits outcome.splits sum.splits)

text \<open>
  C3. On a message with the turn-complete signal, with \<open>fullInput\<close> and \<open>fullOutput\<close> the
  two accumulators as line 130 reads them (the fragments of this message included): if
  one of them is non-empty after trimming, exactly the two entries (user, \<open>fullInput\<close>)
  and (model, \<open>fullOutput\<close>) are appended to the transcript, in this order, also when one
  text is empty; if both trim to the empty string the transcript is unchanged. In every
  case both accumulators are empty afterwards, whatever the audio part of the handler
  does.
\<close>

theorem turn_flush:
  assumes "is_turnComplete m"
  shows "let s' = snd (onmessage m now decoded source s);
             fullInput = currentInputTranscriptionRef (handleTranscription m s);
             fullOutput = currentOutputTranscriptionRef (handleTranscription m s)
         in transcript s' =
              transcript s @
              (if trim fullInput \<noteq> [] \<or> trim fullOutput \<noteq> []
               then [\<lparr>speaker = User, entry_text = fullInput\<rparr>,
                     \<lparr>speaker = Model, entry_text = fullOutput\<rparr>]
               else [])
            \<and> currentInputTranscriptionRef s' = []
            \<and> currentOutputTranscriptionRef s' = []"
  using assms
  by (simp add: Let_def onmessage_transcript handleTurnComplete_def truthy_def
      handleTranscription_fields)

theorem turn_flush_witness:
  "is_turnComplete turn_complete_message
   \<and> transcript (snd (onmessage turn_complete_message 0 (Inr 0) 0
        ((initial (\<lambda>_. Running) (\<lambda>_. Pending) :: (rat, string) component)
           \<lparr>currentInputTranscriptionRef := ''Hola''\<rparr>))) =
       [\<lparr>speaker = User, entry_text = ''Hola''\<rparr>, \<lparr>speaker = Model, entry_text = ''''\<rparr>]
   \<and> currentInputTranscriptionRef (snd (onmessage turn_complete_message 0 (Inr 0) 0
        ((initial (\<lambda>_. Running) (\<lambda>_. Pending) :: (rat, string) component)
           \<lparr>currentInputTranscriptionRef := ''Hola''\<rparr>))) = ''''
   \<and> transcript (snd (onmessage turn_complete_message 0 (Inr 0) 0
        ((initial (\<lambda>_. Running) (\<lambda>_. Pending) :: (rat, string) component)
           \<lparr>currentInputTranscriptionRef := '' '', currentOutputTranscriptionRef := [CHR 0x0A]\<rparr>))) = []
   \<and> currentInputTranscriptionRef (snd (onmessage turn_complete_message 0 (Inr 0) 0
        ((initial (\<lambda>_. Running) (\<lambda>_. Pending) :: (rat, string) component)
           \<lparr>currentInputTranscriptionRef := '' '', currentOutputTranscriptionRef := [CHR 0x0A]\<rparr>))) = ''''"
proof -
  let ?i = "initial (\<lambda>_. Running) (\<lambda>_. Pending) :: (rat, string) component"
  have t: "is_turnComplete turn_complete_message"
    by (simp add: is_turnComplete_def turn_complete_message_def)
  have h: "handleTranscription turn_complete_message s = s" for s :: "(rat, string) component"
    by (simp add: handleTranscription_def turn_complete_message_def)
  from turn_flush [OF t, of 0 "Inr 0" 0 "?i\<lparr>currentInputTranscriptionRef := ''Hola''\<rparr>"]
    turn_flush [OF t, of 0 "Inr 0" 0
      "?i\<lparr>currentInputTranscriptionRef := '' '', currentOutputTranscriptionRef := [CHR 0x0A]\<rparr>"]
    t
  show ?thesis
    by (simp add: Let_def h initial_def trim_def is_whitespace_def)
qed

subsection \<open>Playback scheduling\<close>

lemma onmessage_audio:
  assumes "carries_audio m" "outputAudioContextRef s = Some c"
  shows "effects (snd (onmessage m now (Inr d) source s)) =
           effects s @ [ConnectDestination source c, SourceStart source (max (nextStartTimeRef s) now)]"
    and "nextStartTimeRef (snd (onmessage m now (Inr d) source s)) = max (nextStartTimeRef s) now + d"
    and "outputAudioContextRef (snd (onmessage m now (Inr d) source s)) = Some c"
    and "sourcesRef (snd (onmessage m now (Inr d) source s)) = set_add source (sourcesRef s)"
    and "fst (onmessage m now (Inr d) source s) = Returned"
  using assms
  by (auto simp: onmessage_def onmessage_begin_def onmessage_resume_def call_def Let_def
      carries_audio_def handleTurnComplete_fields handleTranscription_fields
      split: sum.splits option.splits)

lemma deliver_audio:
  assumes "list_all (\<lambda>ch. carries_audio (fst ch)) cs" "outputAudioContextRef s = Some c"
  shows "effects (deliver cs s) = effects s @ playback_calls c (nextStartTimeRef s) cs"
  using assms
proof (induction cs arbitrary: s)
  case Nil
  show ?case by simp
next
  case (Cons ch cs)
  obtain m now d source where ch: "ch = (m, now, d, source)" by (cases ch)
  from Cons.prems have a: "carries_audio m" and rest: "list_all (\<lambda>ch. carries_audio (fst ch)) cs"
    by (simp_all add: ch)
  let ?s = "snd (onmessage m now (Inr d) source s)"
  have "effects (deliver cs ?s) = effects ?s @ playback_calls c (nextStartTimeRef ?s) cs"
    by (rule Cons.IH [OF rest]) (rule onmessage_audio(3) [OF a Cons.prems(2)])
  then show ?case
    by (simp add: ch onmessage_audio(1,2) [OF a Cons.prems(2)])
qed

lemma start_times_playback_calls:
  "start_times (playback_calls c nx cs :: ('t::{linorder,plus}, 'b) effect list) = gapless_law nx cs"
  by (induction c nx cs rule: playback_calls.induct) (simp_all add: clock_def duration_def)

lemma scheduled_gapless_law:
  assumes "list_all (\<lambda>ch. carries_audio (fst ch)) cs" "outputAudioContextRef s = Some c"
  shows "scheduled cs s = gapless_law (nextStartTimeRef s) cs"
  by (simp add: scheduled_def deliver_audio [OF assms] start_times_playback_calls)

lemma length_gapless_law: "length (gapless_law nx cs) = length cs"
  by (induction cs arbitrary: nx) simp_all

lemma gapless_law_first: "cs \<noteq> [] \<Longrightarrow> gapless_law nx cs ! 0 = max nx (clock (cs ! 0))"
  by (cases cs) simp_all

lemma gapless_law_next:
  "Suc i < length cs \<Longrightarrow>
     gapless_law nx cs ! Suc i = max (gapless_law nx cs ! i + duration (cs ! i)) (clock (cs ! Suc i))"
proof (induction cs arbitrary: nx i)
  case Nil
  then show ?case by simp
next
  case (Cons ch cs)
  show ?case
  proof (cases i)
    case 0
    with Cons.prems show ?thesis by (cases cs) simp_all
  next
    case (Suc j)
    with Cons.prems have "Suc j < length cs" by simp
    from Cons.IH [OF this] show ?thesis by (simp add: Suc)
  qed
qed

lemma deliver_next:
  assumes "list_all (\<lambda>ch. carries_audio (fst ch)) cs" "outputAudioContextRef s = Some c"
    "i < length cs"
  shows "nextStartTimeRef (deliver (take (Suc i) cs) s) =
     gapless_law (nextStartTimeRef s) cs ! i + duration (cs ! i)"
  using assms
proof (induction cs arbitrary: s i)
  case Nil
  then show ?case by simp
next
  case (Cons ch cs)
  obtain m now d source where ch: "ch = (m, now, d, source)" by (cases ch)
  from Cons.prems have a: "carries_audio m" and rest: "list_all (\<lambda>ch. carries_audio (fst ch)) cs"
    by (simp_all add: ch)
  let ?s = "snd (onmessage m now (Inr d) source s)"
  note step = onmessage_audio [OF a Cons.prems(2), of now d source]
  show ?case
  proof (cases i)
    case 0
    then show ?thesis by (simp add: ch step clock_def duration_def)
  next
    case (Suc j)
    with Cons.prems have j: "j < length cs" by simp
    from Cons.IH [OF rest step(3) j] show ?thesis
      by (simp add: Suc ch step clock_def duration_def)
  qed
qed

text \<open>
  C2. Gapless scheduling. Chunks with durations \<open>d\<close> are handled in sequence at clock
  readings \<open>t\<close>, on an output context that is held, from next start time 0. Then one
  start is scheduled per chunk; the first start is \<open>max 0 t1\<close>, each later start is the
  maximum of the previous start plus the previous duration and its own clock reading,
  and after chunk \<open>i\<close> the next start time is the start of chunk \<open>i\<close> plus its duration.
\<close>

theorem gapless_scheduling:
  fixes s :: "('t::{linorder,plus,zero}, 'b) component"
  assumes "list_all (\<lambda>ch. carries_audio (fst ch)) cs"
    and "outputAudioContextRef s = Some c"
    and "nextStartTimeRef s = 0"
  shows "length (scheduled cs s) = length cs
    \<and> (cs \<noteq> [] \<longrightarrow> scheduled cs s ! 0 = max 0 (clock (cs ! 0)))
    \<and> (\<forall>i. Suc i < length cs \<longrightarrow>
          scheduled cs s ! Suc i = max (scheduled cs s ! i + duration (cs ! i)) (clock (cs ! Suc i)))
    \<and> (\<forall>i. i < length cs \<longrightarrow>
          nextStartTimeRef (deliver (take (Suc i) cs) s) = scheduled cs s ! i + duration (cs ! i))"
proof -
  have sch: "scheduled cs s = gapless_law 0 cs"
    using scheduled_gapless_law [OF assms(1,2)] assms(3) by simp
  have nxt: "nextStartTimeRef (deliver (take (Suc i) cs) s) = gapless_law 0 cs ! i + duration (cs ! i)"
    if "i < length cs" for i
    using deliver_next [OF assms(1,2) that] assms(3) by simp
  show ?thesis
    unfolding sch
    by (intro conjI allI impI length_gapless_law gapless_law_first gapless_law_next nxt)
qed

theorem gapless_scheduling_witness:
  "list_all (\<lambda>ch. carries_audio (fst ch)) example_chunks
   \<and> outputAudioContextRef (active_session\<lparr>nextStartTimeRef := 0\<rparr>) = Some 4
   \<and> nextStartTimeRef (active_session\<lparr>nextStartTimeRef := 0\<rparr>) = 0
   \<and> scheduled example_chunks (active_session\<lparr>nextStartTimeRef := 0\<rparr>) = [0, 3 / 5, 9 / 10]
   \<and> nextStartTimeRef (deliver example_chunks (active_session\<lparr>nextStartTimeRef := 0\<rparr>)) = 13 / 10"
proof -
  let ?s = "active_session\<lparr>nextStartTimeRef := 0\<rparr>"
  have a: "list_all (\<lambda>ch. carries_audio (fst ch)) example_chunks"
    by (simp add: example_chunks_def carries_audio_def base64Audio_def audio_message_def truthy_def)
  have c: "outputAudioContextRef ?s = Some 4"
    by (simp add: active_session_def)
  have z: "nextStartTimeRef ?s = 0"
    by simp
  have g: "gapless_law 0 example_chunks = [0, 3 / 5, 9 / 10]"
    by (simp add: example_chunks_def clock_def duration_def)
  have l: "2 < length example_chunks"
    by (simp add: example_chunks_def)
  have t: "take (Suc 2) example_chunks = example_chunks"
    by (simp add: example_chunks_def)
  have d: "duration (example_chunks ! 2) = 2 / 5"
    by (simp add: example_chunks_def duration_def)
  note law = gapless_scheduling [OF a c z]
  have "nextStartTimeRef (deliver (take (Suc 2) example_chunks) ?s) =
      scheduled example_chunks ?s ! 2 + duration (example_chunks ! 2)"
    by (rule law [THEN conjunct2, THEN conjunct2, THEN conjunct2, rule_format, OF l])
  then have n: "nextStartTimeRef (deliver example_chunks ?s) =
      scheduled example_chunks ?s ! 2 + duration (example_chunks ! 2)"
    by (simp only: t)
  have sch: "scheduled example_chunks ?s = [0, 3 / 5, 9 / 10]"
    by (simp only: scheduled_gapless_law [OF a c] z g)
  have "nextStartTimeRef (deliver example_chunks ?s) = 13 / 10"
    by (simp add: n sch d)
  with a c z sch show ?thesis
    by (intro conjI)
qed

subsection \<open>Capture\<close>

lemma onaudioprocess_fulfilled:
  assumes "sessionPromiseRef s = Some p" "promiseState s p = Fulfilled" "quiescent s"
  shows "onaudioprocess enc f s = s\<lparr>effects := effects s @ [SendRealtimeInput p (enc f)]\<rparr>"
  using assms
  by (simp add: onaudioprocess_def Let_def drain_eq quiescent_filter is_pending_pair)

text \<open>
  C8. Frame ordering. While the session promise is held and fulfilled, firing the capture
  callback on the frames \<open>f1, ..., fN\<close> adds to the trace exactly the \<open>N\<close> calls
  \<open>sendRealtimeInput (createPcmBlob f1), ..., sendRealtimeInput (createPcmBlob fN)\<close>, in
  this order, and leaves no reaction waiting: no frame is kept back, merged, lost or
  sent twice.
\<close>

theorem frame_ordering:
  assumes "sessionPromiseRef s = Some p" "promiseState s p = Fulfilled" "quiescent s"
  shows "effects (capture enc frames s) =
           effects s @ map (\<lambda>f. SendRealtimeInput p (enc f)) frames
     \<and> jobs (capture enc frames s) = jobs s"
  using assms
proof (induction frames arbitrary: s)
  case Nil
  show ?case by (simp add: capture_def)
next
  case (Cons f frames)
  let ?s = "s\<lparr>effects := effects s @ [SendRealtimeInput p (enc f)]\<rparr>"
  have step: "onaudioprocess enc f s = ?s"
    by (rule onaudioprocess_fulfilled [OF Cons.prems])
  have "effects (capture enc frames ?s) =
           effects ?s @ map (\<lambda>f. SendRealtimeInput p (enc f)) frames
     \<and> jobs (capture enc frames ?s) = jobs ?s"
    using Cons.prems by (intro Cons.IH) (simp_all add: quiescent_def)
  then show ?case
    by (simp add: capture_def step)
qed

theorem frame_ordering_witness:
  "sessionPromiseRef active_session = Some 5 \<and> promiseState active_session 5 = Fulfilled
   \<and> quiescent active_session
   \<and> effects (capture (\<lambda>f. ''pcm:'' @ f) [''ab'', ''c'', ''ab''] active_session) =
       [SendRealtimeInput 5 ''pcm:ab'', SendRealtimeInput 5 ''pcm:c'', SendRealtimeInput 5 ''pcm:ab'']
   \<and> jobs (capture (\<lambda>f. ''pcm:'' @ f) [''ab'', ''c'', ''ab''] active_session) = []"
proof -
  have r: "sessionPromiseRef active_session = Some 5"
    and f: "promiseState active_session 5 = Fulfilled"
    and q: "quiescent active_session"
    by (simp_all add: active_session_def quiescent_def)
  from frame_ordering [OF r f q, of "\<lambda>f. ''pcm:'' @ f" "[''ab'', ''c'', ''ab'']"] r f q
  show ?thesis
    by (simp add: active_session_def)
qed

subsection \<open>Callbacks after cleanup\<close>

lemma onmessage_cleared:
  assumes "outputAudioContextRef s = None"
  shows "effects (snd (onmessage m now dec src s)) = effects s"
    and "jobs (snd (onmessage m now dec src s)) = jobs s"
    and "promiseState (snd (onmessage m now dec src s)) = promiseState s"
    and "contextState (snd (onmessage m now dec src s)) = contextState s"
    and "cleared (snd (onmessage m now dec src s)) = cleared s"
    and "\<And>b c. fst (onmessage m now dec src s) \<noteq> Decoding b c"
  using assms
  by (auto simp: onmessage_def onmessage_begin_def Let_def cleared_def
      handleTurnComplete_fields handleTranscription_fields split: sum.splits option.splits)

lemma fire_cleared:
  assumes "cleared s" "quiescent s"
  shows "effects (fire enc cb s) = effects s \<and> jobs (fire enc cb s) = jobs s
    \<and> promiseState (fire enc cb s) = promiseState s \<and> contextState (fire enc cb s) = contextState s
    \<and> cleared (fire enc cb s)"
proof (cases cb)
  case (CaptureFrame f)
  have "sessionPromiseRef s = None" using assms(1) by (simp add: cleared_def)
  then have "fire enc cb s = s"
    by (simp add: CaptureFrame onaudioprocess_def Let_def drain_quiescent assms(2))
  with assms(1) show ?thesis by simp
next
  case (InboundMessage m now dec src)
  have "outputAudioContextRef s = None" using assms(1) by (simp add: cleared_def)
  from onmessage_cleared(1-5) [OF this] assms(1) show ?thesis
    by (simp add: InboundMessage)
next
  case (PlaybackEnded src)
  have "sourcesRef s = []" using assms(1) by (simp add: cleared_def)
  then have "fire enc cb s = s"
    by (simp add: PlaybackEnded ended_def set_delete_def)
  with assms(1) show ?thesis by simp
qed

lemma fold_fire_cleared:
  assumes "cleared s" "quiescent s"
  shows "effects (fold (fire enc) cbs s) = effects s \<and> jobs (fold (fire enc) cbs s) = jobs s
    \<and> cleared (fold (fire enc) cbs s)"
  using assms
proof (induction cbs arbitrary: s)
  case Nil
  then show ?case by simp
next
  case (Cons cb cbs)
  note step = fire_cleared [OF Cons.prems, of enc cb]
  have "quiescent (fire enc cb s)"
    using Cons.prems(2) step by (simp add: quiescent_def)
  with step Cons.IH [of "fire enc cb s"] show ?case
    by simp
qed

text \<open>
  C9. After a handler has run \<open>cleanup\<close>, any sequence of capture callbacks, inbound
  messages and playback completions makes no call on an external object (no send, no
  playback start), registers no reaction, and leaves every handle null, the active set
  empty and the next start time 0.
\<close>

theorem callbacks_after_cleanup:
  "effects (fold (fire enc) cbs (drain (cleanup s))) = effects (drain (cleanup s))
   \<and> jobs (fold (fire enc) cbs (drain (cleanup s))) = jobs (drain (cleanup s))
   \<and> cleared (fold (fire enc) cbs (drain (cleanup s)))"
  by (rule fold_fire_cleared) (simp_all add: cleared_drain cleared_cleanup quiescent_drain)

subsection \<open>Messages that lack a field\<close>

text \<open>
  C6 says that a message lacking any of its optional fields is ignored without an
  error. On the code this fails for two shapes: when the model turn has no \<open>parts\<close>, and
  when its first part has no \<open>inlineData\<close> (a text part), line 140 dereferences the
  absent field and the handler ends with a \<open>TypeError\<close>, in every state. The state is
  left as it was.
\<close>

theorem malformed_model_turn_throws:
  "onmessage text_part_message now decoded source s = (Threw TypeError, s)
   \<and> onmessage no_parts_message now decoded source s = (Threw TypeError, s)"
  by (simp add: onmessage_def onmessage_begin_def Let_def base64Audio_def text_part_message_def
    no_parts_message_def handleTranscription_def handleTurnComplete_def is_turnComplete_def)

text \<open>The fields line 140 does check: absent, they end the handler normally.\<close>

lemma absent_fields_ignored:
  "onmessage \<lparr>serverContent = None\<rparr> now decoded source s = (Returned, s)"
  "base64Audio \<lparr>serverContent = Some (sc\<lparr>modelTurn := None\<rparr>)\<rparr> = Inr None"
  "base64Audio \<lparr>serverContent = Some (sc\<lparr>modelTurn := Some \<lparr>parts = Some []\<rparr>\<rparr>)\<rparr> = Inr None"
  by (simp_all add: onmessage_def onmessage_begin_def Let_def base64Audio_def
    handleTranscription_def handleTurnComplete_def is_turnComplete_def)

subsection \<open>Start\<close>

lemma start_acquire_failed:
  assumes "start_failure env (contextState s) = Some e"
  shows "status (start_acquire env s) = Error"
    and "error (start_acquire env s) =
      Some ''Could not access microphone. Please check permissions and try again.''"
    and "console (start_acquire env s) = console s @ [StartFailedLog e]"
    and "transcript (start_acquire env s) = transcript s"
    and "sessionPromiseRef (start_acquire env s) = sessionPromiseRef s"
  using assms
  by (auto simp: start_acquire_def start_failure_def start_unlock_def start_catch_def call_def
      Let_def split: sum.splits if_splits)

lemma start_acquire_succeeded:
  assumes "start_failure env (contextState s) = None"
  shows "status (start_acquire env s) = status s"
    and "error (start_acquire env s) = error s"
    and "console (start_acquire env s) = console s"
    and "transcript (start_acquire env s) = transcript s"
    and "sessionPromiseRef (start_acquire env s) = Some (connect env)"
  using assms
  by (auto simp: start_acquire_def start_failure_def start_unlock_def start_catch_def call_def
      Let_def split: sum.splits if_splits)

lemma start_prologue_fields:
  "status (start_prologue s) = Connecting" "error (start_prologue s) = None"
  "transcript (start_prologue s) = []" "contextState (start_prologue s) = contextState s"
  "console (start_prologue s) = console s" "effects (start_prologue s) = effects s"
  "jobs (start_prologue s) = jobs s" "cleared (start_prologue s) = cleared s"
  by (simp_all add: start_prologue_def cleared_def)

lemma handleStartChat_failed:
  assumes "start_failure env (contextState s) = Some e"
  shows "status (handleStartChat env s) = Error
    \<and> error (handleStartChat env s) =
        Some ''Could not access microphone. Please check permissions and try again.''
    \<and> last (console (handleStartChat env s)) = StartFailedLog e"
proof -
  let ?s = "drain (cleanup (start_prologue s))"
  have "start_failure env (contextState ?s) = Some e"
    using assms by (simp add: drain_fields cleanup_fields start_prologue_fields)
  from start_acquire_failed(1-3) [OF this] show ?thesis
    by (simp add: handleStartChat_def)
qed

lemma handleStartChat_succeeded:
  assumes "start_failure env (contextState s) = None"
  shows "status (handleStartChat env s) = Connecting \<and> error (handleStartChat env s) = None
    \<and> sessionPromiseRef (handleStartChat env s) = Some (connect env)"
proof -
  let ?s = "drain (cleanup (start_prologue s))"
  have "start_failure env (contextState ?s) = None"
    using assms by (simp add: drain_fields cleanup_fields start_prologue_fields)
  from start_acquire_succeeded [OF this] show ?thesis
    by (simp add: handleStartChat_def drain_fields cleanup_fields start_prologue_fields)
qed

text \<open>
  C7, as the code has it. A start does not fail with an error of its own: whichever step
  of the acquisition fails (the microphone, the construction of an audio context, the
  resume of the output context), the one \<open>catch\<close> block sets the status \<open>Error\<close> and the
  same message about the microphone, and writes the cause to the console only. When no
  step fails the status is \<open>Connecting\<close>, no message is set and the session promise is
  held.
\<close>

theorem start_failure_uniform:
  "(\<forall>e. start_failure env (contextState s) = Some e \<longrightarrow>
       status (handleStartChat env s) = Error
       \<and> error (handleStartChat env s) =
           Some ''Could not access microphone. Please check permissions and try again.''
       \<and> last (console (handleStartChat env s)) = StartFailedLog e)
   \<and> (start_failure env (contextState s) = None \<longrightarrow>
       status (handleStartChat env s) = Connecting \<and> error (handleStartChat env s) = None
       \<and> sessionPromiseRef (handleStartChat env s) = Some (connect env))"
  using handleStartChat_failed [of env s] handleStartChat_succeeded [of env s] by blast

theorem start_failure_uniform_witness:
  "start_failure mic_denied (contextState mounted) = Some NotAllowedError
   \<and> start_failure graph_failure (contextState mounted) = Some NotSupportedError
   \<and> start_failure all_granted (contextState mounted) = None
   \<and> status (handleStartChat mic_denied mounted) = Error
   \<and> status (handleStartChat graph_failure mounted) = Error
   \<and> error (handleStartChat graph_failure mounted) =
       Some ''Could not access microphone. Please check permissions and try again.''
   \<and> last (console (handleStartChat mic_denied mounted)) = StartFailedLog NotAllowedError
   \<and> last (console (handleStartChat graph_failure mounted)) = StartFailedLog NotSupportedError
   \<and> status (handleStartChat all_granted mounted) = Connecting
   \<and> error (handleStartChat all_granted mounted) = None"
proof -
  have a: "start_failure mic_denied (contextState mounted) = Some NotAllowedError"
    by (simp add: start_failure_def mic_denied_def)
  have b: "start_failure graph_failure (contextState mounted) = Some NotSupportedError"
    by (simp add: start_failure_def graph_failure_def)
  have c: "start_failure all_granted (contextState mounted) = None"
    by (simp add: start_failure_def all_granted_def)
  from start_failure_uniform [of mic_denied mounted] start_failure_uniform [of graph_failure mounted]
    start_failure_uniform [of all_granted mounted] a b c
  show ?thesis
    by simp
qed

text \<open>
  C7, as stated, fails: a denied microphone and a failing audio-context constructor are
  reported alike, and the second with the message about the microphone.
\<close>

theorem start_failures_not_distinct:
  "reported (handleStartChat mic_denied mounted) = reported (handleStartChat graph_failure mounted)
   \<and> error (handleStartChat graph_failure mounted) =
       Some ''Could not access microphone. Please check permissions and try again.''"
proof -
  have "start_failure mic_denied (contextState mounted) = Some NotAllowedError"
    by (simp add: start_failure_def mic_denied_def)
  note a = handleStartChat_failed [OF this]
  have "start_failure graph_failure (contextState mounted) = Some NotSupportedError"
    by (simp add: start_failure_def graph_failure_def)
  note b = handleStartChat_failed [OF this]
  from a b show ?thesis
    by (simp add: reported_def)
qed

lemma start_acquire_transcript: "transcript (start_acquire env s) = transcript s"
  by (cases "start_failure env (contextState s)")
    (simp_all add: start_acquire_failed start_acquire_succeeded)

lemma start_prologue_overwrites:
  "start_prologue (s\<lparr>transcript := tr, error := er\<rparr>) = start_prologue s"
  by (simp add: start_prologue_def)

text \<open>
  C10. A start empties the transcript and clears the error message first: the prologue
  makes no call, registers no reaction and releases nothing, \<open>cleanup\<close> and the
  acquisition run on its result. After the start the transcript is empty and the error
  message is either null or the message of this start's own failure. The state after a
  start does not depend on the transcript and the error message before it.
\<close>

theorem start_resets_transcript_and_error:
  "transcript (start_prologue s) = [] \<and> error (start_prologue s) = None
   \<and> effects (start_prologue s) = effects s \<and> jobs (start_prologue s) = jobs s
   \<and> cleared (start_prologue s) = cleared s
   \<and> handleStartChat env s = start_acquire env (drain (cleanup (start_prologue s)))
   \<and> transcript (handleStartChat env s) = []
   \<and> error (handleStartChat env s) =
       (case start_failure env (contextState s) of
          None \<Rightarrow> None
        | Some e \<Rightarrow> Some ''Could not access microphone. Please check permissions and try again.'')
   \<and> handleStartChat env (s\<lparr>transcript := tr, error := er\<rparr>) = handleStartChat env s"
proof -
  have t: "transcript (handleStartChat env s) = []"
    by (simp add: handleStartChat_def start_acquire_transcript drain_fields cleanup_fields
      start_prologue_fields)
  have e: "error (handleStartChat env s) =
       (case start_failure env (contextState s) of
          None \<Rightarrow> None
        | Some e \<Rightarrow> Some ''Could not access microphone. Please check permissions and try again.'')"
    using handleStartChat_failed [of env s] handleStartChat_succeeded [of env s]
    by (cases "start_failure env (contextState s)") simp_all
  have n: "handleStartChat env (s\<lparr>transcript := tr, error := er\<rparr>) = handleStartChat env s"
    by (simp only: handleStartChat_def start_prologue_overwrites)
  show ?thesis
    by (intro conjI t e n start_prologue_fields) (rule handleStartChat_def)
qed

subsection \<open>Between two handlers\<close>

text \<open>
  The state the component is mounted with is quiescent and every handler keeps it so:
  the hypothesis of C4, C5 and C8 holds in every state the handlers reach.
\<close>

lemma quiescent_after_drain:
  "quiescent (handleStopChat s)" "quiescent (onerror s)" "quiescent (onclose s)"
  "quiescent (unmount s)" "quiescent (onaudioprocess enc f s)" "quiescent (settle p st s)"
  by (simp_all add: handleStopChat_def onerror_def onclose_def unmount_def onaudioprocess_def
    settle_def Let_def quiescent_drain)

lemma start_acquire_jobs:
  "jobs (start_acquire env s) = jobs s" "promiseState (start_acquire env s) = promiseState s"
  by (auto simp: start_acquire_def start_unlock_def start_catch_def call_def Let_def
      split: sum.splits)

lemma onmessage_jobs:
  "jobs (snd (onmessage m now dec src s)) = jobs s"
  "promiseState (snd (onmessage m now dec src s)) = promiseState s"
  by (auto simp: onmessage_def onmessage_begin_def onmessage_resume_def call_def Let_def
      handleTurnComplete_fields handleTranscription_fields split: sum.splits option.splits)

lemma quiescent_preserved:
  "quiescent (handleStartChat env s)"
  "quiescent s \<Longrightarrow> quiescent (snd (onmessage m now dec src s))"
  "quiescent s \<Longrightarrow> quiescent (snd (onmessage_begin m now s))"
  "quiescent s \<Longrightarrow> quiescent (onmessage_resume c src d s)"
  "quiescent s \<Longrightarrow> quiescent (ended src s)"
  "quiescent s \<Longrightarrow> quiescent (snd (onopen a b c s))"
  "quiescent s \<Longrightarrow> quiescent (on_rejection e s)"
  "quiescent (initial cs (ps :: nat \<Rightarrow> promise_state) :: ('t::zero, 'b) component)"
proof -
  have "quiescent (drain (cleanup (start_prologue s)))"
    by (rule quiescent_drain)
  then show "quiescent (handleStartChat env s)"
    by (simp add: quiescent_def handleStartChat_def start_acquire_jobs)
  show "quiescent s \<Longrightarrow> quiescent (snd (onmessage m now dec src s))"
    by (simp add: quiescent_def onmessage_jobs)
  show "quiescent s \<Longrightarrow> quiescent (snd (onmessage_begin m now s))"
    by (simp add: quiescent_def onmessage_begin_def Let_def handleTurnComplete_fields
      handleTranscription_fields split: sum.splits option.splits)
  show "quiescent s \<Longrightarrow> quiescent (onmessage_resume c src d s)"
    by (simp add: quiescent_def onmessage_resume_def Let_def call_def)
  show "quiescent s \<Longrightarrow> quiescent (ended src s)"
    by (simp add: quiescent_def ended_def)
  show "quiescent s \<Longrightarrow> quiescent (snd (onopen a b c s))"
    by (simp add: quiescent_def onopen_def Let_def call_def split: option.splits)
  show "quiescent s \<Longrightarrow> quiescent (on_rejection e s)"
    by (simp add: quiescent_def on_rejection_def)
  show "quiescent (initial cs ps :: ('t, 'b) component)"
    by (simp add: quiescent_def initial_def)
qed

text \<open>A start, the transport's open and the fulfilment of the promise give an active session.\<close>

lemma session_becomes_active:
  "let s = settle 5 Fulfilled (snd (onopen 10 2 11 (handleStartChat all_granted mounted)))
   in status s = Active \<and> sessionPromiseRef s = Some 5 \<and> promiseState s 5 = Fulfilled
      \<and> quiescent s \<and> mediaStreamRef s = Some \<lparr>getTracks = [1]\<rparr>
      \<and> inputAudioContextRef s = Some 3 \<and> outputAudioContextRef s = Some 4
      \<and> scriptProcessorRef s = Some 2 \<and> transcript s = [] \<and> error s = None"
  by (simp add: Let_def settle_def drain_eq onopen_def handleStartChat_def start_acquire_def
    start_unlock_def call_def cleanup_eq start_prologue_def all_granted_def mounted_def
    initial_def close_job_def quiescent_def is_pending_def release_calls_def track_stops_def
    node_disconnects_def context_closes_def)

subsection \<open>What outlives a cleanup\<close>

text \<open>
  The theorem of C9 is about callbacks that begin after \<open>cleanup\<close>. A message handler
  suspended in its decode is another matter: should the decode (utils/audioUtils) last
  beyond the running task and \<open>cleanup\<close> run meanwhile, the handler continues on the
  context it had read before, starts its source and enters it in the active set. The
  two accumulators are reset by the turn-complete signal only: a start keeps what an
  unfinished turn left.
\<close>

lemma decode_in_flight:
  "sourcesRef (onmessage_resume c source d (drain (cleanup s))) = [source]
   \<and> nextStartTimeRef (onmessage_resume c source d (drain (cleanup s))) = 0 + d
   \<and> effects (onmessage_resume c source d (drain (cleanup s))) =
       effects (drain (cleanup s)) @ [ConnectDestination source c, SourceStart source 0]"
  by (simp add: onmessage_resume_def call_def Let_def set_add_def drain_fields cleanup_fields)

lemma accumulators_outlive_session:
  "currentInputTranscriptionRef (handleStartChat env s) = currentInputTranscriptionRef s
   \<and> currentOutputTranscriptionRef (handleStartChat env s) = currentOutputTranscriptionRef s"
  by (auto simp: handleStartChat_def start_acquire_def start_unlock_def start_catch_def call_def
      Let_def drain_fields cleanup_fields start_prologue_def split: sum.splits)

end
